theory Spec2Isabelle
  imports Complex_Main
begin

section \<open>Numbers, exceptions and values\<close>

text \<open>
  The program computes with Python floats. They are modelled as the reals: every
  arithmetic operation is exact, so binary64 rounding, overflow, infinities and NaN are
  outside the model, and an equation proved here is the one the program satisfies up to
  floating-point error. What Python does beyond returning a float is written out: a
  division by zero raises, a power of a negative base to a fractional exponent is a complex
  number, and \<open>round\<close> of a complex number raises.
\<close>

datatype error = ZeroDivisionError | TypeError

datatype pyval = PFloat real | PComplex complex

datatype jval = Num real | Str string

type_synonym dict = "(string \<times> jval) list"

text \<open>\<open>a / b\<close> on floats: raises when the divisor is zero.\<close>

definition py_div :: "real \<Rightarrow> real \<Rightarrow> error + real" where
  "py_div a b = (if b = 0 then Inl ZeroDivisionError else Inr (a / b))"

text \<open>
  \<open>x ** y\<close> on floats, in the order of CPython's case analysis: a zero exponent gives
  1 for every base; a zero base raises for a negative exponent and gives 0 otherwise; a
  negative base with a fractional exponent gives the complex number of modulus
  \<open>\<bar>x\<bar> ** y\<close> and argument \<open>pi * y\<close>; a negative base with an integral exponent
  is an integer power; a positive base is the real power.
\<close>

definition py_pow :: "real \<Rightarrow> real \<Rightarrow> error + pyval" where
  "py_pow x y =
     (if y = 0 then Inr (PFloat 1)
      else if x = 0 then (if y < 0 then Inl ZeroDivisionError else Inr (PFloat 0))
      else if x < 0 \<and> of_int \<lfloor>y\<rfloor> \<noteq> y
        then Inr (PComplex (complex_of_real (\<bar>x\<bar> powr y) * cis (pi * y)))
      else if x < 0 then Inr (PFloat (power_int x \<lfloor>y\<rfloor>))
      else Inr (PFloat (x powr y)))"

text \<open>\<open>a * b\<close>: a float is coerced to a complex number when the other factor is one.\<close>

fun py_mul :: "pyval \<Rightarrow> pyval \<Rightarrow> pyval" where
  "py_mul (PFloat a) (PFloat b) = PFloat (a * b)"
| "py_mul (PFloat a) (PComplex c) = PComplex (complex_of_real a * c)"
| "py_mul (PComplex c) (PFloat b) = PComplex (c * complex_of_real b)"
| "py_mul (PComplex c) (PComplex d) = PComplex (c * d)"

text \<open>
  \<open>round(x, n)\<close> on a float rounds to the nearest multiple of \<open>10 ** -n\<close>, a tie
  going to the even multiple; on a complex number it raises TypeError.
\<close>

definition round_half_even :: "real \<Rightarrow> int" where
  "round_half_even s =
     (let f = \<lfloor>s\<rfloor>; d = s - of_int f
      in if d < 1 / 2 then f
         else if 1 / 2 < d then f + 1
         else if even f then f else f + 1)"

definition round_float :: "real \<Rightarrow> nat \<Rightarrow> real" where
  "round_float x n = of_int (round_half_even (x * 10 ^ n)) / 10 ^ n"


section \<open>Data model\<close>

text \<open>\<open>CobbDouglasModel\<close>: the constructor stores \<open>tfp\<close> as \<open>A\<close>.\<close>

record CobbDouglasModel =
  A :: real
  alpha :: real
  beta :: real

section \<open>CobbDouglasModel\<close>

definition production :: "CobbDouglasModel \<Rightarrow> real \<Rightarrow> real \<Rightarrow> error + pyval" where
  "production self capital labor =
     (case py_pow capital (alpha self) of
        Inl e \<Rightarrow> Inl e
      | Inr p \<Rightarrow>
         (case py_pow labor (beta self) of
            Inl e \<Rightarrow> Inl e
          | Inr q \<Rightarrow> Inr (py_mul (py_mul (PFloat (A self)) p) q)))"

definition marginal_product_capital ::
    "CobbDouglasModel \<Rightarrow> real \<Rightarrow> real \<Rightarrow> error + pyval" where
  "marginal_product_capital self capital labor =
     (case py_pow capital (alpha self - 1) of
        Inl e \<Rightarrow> Inl e
      | Inr p \<Rightarrow>
         (case py_pow labor (beta self) of
            Inl e \<Rightarrow> Inl e
          | Inr q \<Rightarrow> Inr (py_mul (py_mul (PFloat (alpha self * A self)) p) q)))"

definition marginal_product_labor ::
    "CobbDouglasModel \<Rightarrow> real \<Rightarrow> real \<Rightarrow> error + pyval" where
  "marginal_product_labor self capital labor =
     (case py_pow capital (alpha self) of
        Inl e \<Rightarrow> Inl e
      | Inr p \<Rightarrow>
         (case py_pow labor (beta self - 1) of
            Inl e \<Rightarrow> Inl e
          | Inr q \<Rightarrow> Inr (py_mul (py_mul (PFloat (beta self * A self)) p) q)))"

text \<open>
  \<open>optimal_allocation\<close> hands the maximisation to an iterative floating-point solver of
  an external library and returns what the solver converged to; it has no embedding here.
\<close>

section \<open>DemandModel\<close>

definition demand_quantity :: "real \<Rightarrow> real \<Rightarrow> real \<Rightarrow> real \<Rightarrow> error + pyval" where
  "demand_quantity price elasticity base_price base_quantity =
     (case py_div price base_price of
        Inl e \<Rightarrow> Inl e
      | Inr r \<Rightarrow>
         (case py_pow r elasticity of
            Inl e \<Rightarrow> Inl e
          | Inr p \<Rightarrow> Inr (py_mul (PFloat base_quantity) p)))"

definition revenue :: "real \<Rightarrow> real \<Rightarrow> real \<Rightarrow> real \<Rightarrow> error + pyval" where
  "revenue price elasticity base_price base_quantity =
     (case demand_quantity price elasticity base_price base_quantity of
        Inl e \<Rightarrow> Inl e
      | Inr quantity \<Rightarrow> Inr (py_mul (PFloat price) quantity))"

definition optimal_price :: "real \<Rightarrow> real \<Rightarrow> error + dict" where
  "optimal_price elasticity marginal_cost =
     (if 0 \<le> elasticity
      then Inr [(''error'', Str ''Elasticity must be negative for downward-sloping demand'')]
      else
        (case py_div 1 elasticity of
           Inl e \<Rightarrow> Inl e
         | Inr r \<Rightarrow>
            (case py_div marginal_cost (1 + r) of
               Inl e \<Rightarrow> Inl e
             | Inr p \<Rightarrow>
                (case py_div (p - marginal_cost) marginal_cost of
                   Inl e \<Rightarrow> Inl e
                 | Inr m \<Rightarrow>
                    Inr [(''optimal_price'', Num (round_float p 2)),
                         (''markup_percentage'', Num (round_float (m * 100) 2))]))))"

section \<open>The production endpoint\<close>

text \<open>
  \<open>ProductionRequest\<close> of main.py, with its five fields present and numeric; the
  request validation admits it when \<open>capital\<close> and \<open>labor\<close> are positive.
\<close>

record ProductionRequest =
  capital :: real
  labor :: real
  tfp :: real
  alpha :: real
  beta :: real



section \<open>Shapes of the optimal-price result\<close>

text \<open>
  \<open>optimal_price\<close> has three outcomes: the mapping with the single field \<open>error\<close>, the
  mapping with the two numeric fields, and an exception, which is no mapping at all.
\<close>

fun is_num :: "jval \<Rightarrow> bool" where
  "is_num (Num x) = True"
| "is_num (Str s) = False"

definition is_error_result :: "error + dict \<Rightarrow> bool" where
  "is_error_result r = (case r of Inl e \<Rightarrow> False | Inr d \<Rightarrow> map fst d = [''error''])"

definition is_numeric_result :: "error + dict \<Rightarrow> bool" where
  "is_numeric_result r =
     (case r of
        Inl e \<Rightarrow> False
      | Inr d \<Rightarrow>
          map fst d = [''optimal_price'', ''markup_percentage''] \<and> list_all is_num (map snd d))"

section \<open>Facts about the arithmetic\<close>

lemma py_pow_pos: "0 < x \<Longrightarrow> py_pow x y = Inr (PFloat (x powr y))"
  by (simp add: py_pow_def)

lemma powr_pred_times: "0 < x \<Longrightarrow> x powr (a - 1) * x = x powr a" for x a :: real
  by (simp add: powr_diff)



lemma markup_divisor_zero: "e \<noteq> 0 \<Longrightarrow> (1 + 1 / e = 0) = (e = - 1)" for e :: real
  by (auto simp: field_simps add_eq_0_iff)

text \<open>\<open>round_float\<close> is a rounding: a multiple of \<open>10 ** -n\<close> at most half a unit away.\<close>

lemma round_half_even_close: "\<bar>of_int (round_half_even s) - s\<bar> \<le> 1 / 2"
  unfolding round_half_even_def Let_def by (auto; linarith)

lemma round_float_decimals: "round_float x n * 10 ^ n = of_int (round_half_even (x * 10 ^ n))"
  by (simp add: round_float_def)

lemma round_float_close: "\<bar>round_float x n - x\<bar> \<le> 1 / (2 * 10 ^ n)"
proof -
  have "\<bar>round_float x n - x\<bar>
          = \<bar>of_int (round_half_even (x * 10 ^ n)) - x * 10 ^ n\<bar> / 10 ^ n"
    by (simp add: round_float_def field_simps flip: abs_mult)
  also have "\<dots> \<le> (1 / 2) / 10 ^ n"
    by (intro divide_right_mono round_half_even_close) simp
  finally show ?thesis by simp
qed

lemma round_float_ties_to_even:
  "round_float (20005 / 1000) 2 = 20 \<and> round_float (20015 / 1000) 2 = 2002 / 100"
  by (simp add: round_float_def round_half_even_def)

section \<open>Production and marginal products\<close>

lemma production_pos:
  "0 < K \<Longrightarrow> 0 < L \<Longrightarrow>
     production self K L
       = Inr (PFloat (A self * K powr CobbDouglasModel.alpha self
                             * L powr CobbDouglasModel.beta self))"
  by (simp add: production_def py_pow_pos)

lemma marginal_product_capital_pos:
  "0 < K \<Longrightarrow> 0 < L \<Longrightarrow>
     marginal_product_capital self K L
       = Inr (PFloat (CobbDouglasModel.alpha self * A self
                        * K powr (CobbDouglasModel.alpha self - 1)
                        * L powr CobbDouglasModel.beta self))"
  by (simp add: marginal_product_capital_def py_pow_pos)

lemma marginal_product_labor_pos:
  "0 < K \<Longrightarrow> 0 < L \<Longrightarrow>
     marginal_product_labor self K L
       = Inr (PFloat (CobbDouglasModel.beta self * A self
                        * K powr CobbDouglasModel.alpha self
                        * L powr (CobbDouglasModel.beta self - 1)))"
  by (simp add: marginal_product_labor_def py_pow_pos)

text \<open>Outside the positive inputs the power raises or leaves the floats.\<close>

lemma production_zero_capital_raises:
  "CobbDouglasModel.alpha self < 0 \<Longrightarrow> production self 0 L = Inl ZeroDivisionError"
  by (simp add: production_def py_pow_def)



subsection \<open>Euler's theorem\<close>

lemma euler_sum:
  fixes K L a b c u v :: real
  assumes "0 < K" "0 < L"
  shows "u * (a * c * K powr (a - 1) * L powr b) * K
           + v * (b * c * K powr a * L powr (b - 1)) * L
         = (u * a + v * b) * (c * K powr a * L powr b)"
proof -
  have "u * (a * c * K powr (a - 1) * L powr b) * K
          = u * a * (c * (K powr (a - 1) * K) * L powr b)"
    by simp
  also have "\<dots> = u * a * (c * K powr a * L powr b)"
    using assms by (simp add: powr_pred_times)
  finally have capital_part:
    "u * (a * c * K powr (a - 1) * L powr b) * K = u * a * (c * K powr a * L powr b)" .
  have "v * (b * c * K powr a * L powr (b - 1)) * L
          = v * b * (c * K powr a * (L powr (b - 1) * L))"
    by simp
  also have "\<dots> = v * b * (c * K powr a * L powr b)"
    using assms by (simp add: powr_pred_times)
  finally have labor_part:
    "v * (b * c * K powr a * L powr (b - 1)) * L = v * b * (c * K powr a * L powr b)" .
  show ?thesis unfolding capital_part labor_part by (simp add: algebra_simps)
qed

text \<open>
  The marginal products already carry the factors \<open>alpha\<close> and \<open>beta\<close>, so the sum
  weighted once more by them is \<open>alpha\<^sup>2 + beta\<^sup>2\<close> times the output.
\<close>

lemma euler_weighted_sum:
  assumes "0 < K" "0 < L"
  shows "\<exists>Y MPK MPL. production self K L = Inr (PFloat Y)
           \<and> marginal_product_capital self K L = Inr (PFloat MPK)
           \<and> marginal_product_labor self K L = Inr (PFloat MPL)
           \<and> CobbDouglasModel.alpha self * MPK * K + CobbDouglasModel.beta self * MPL * L
               = ((CobbDouglasModel.alpha self)\<^sup>2 + (CobbDouglasModel.beta self)\<^sup>2) * Y"
  using assms
    euler_sum [OF assms, where a = "CobbDouglasModel.alpha self" and c = "A self"
      and b = "CobbDouglasModel.beta self" and u = "CobbDouglasModel.alpha self"
      and v = "CobbDouglasModel.beta self"]
  by (simp add: production_pos marginal_product_capital_pos marginal_product_labor_pos
      power2_eq_square)




section \<open>Demand and revenue\<close>

lemma demand_quantity_pos:
  "0 < p \<Longrightarrow> 0 < bp \<Longrightarrow>
     demand_quantity p e bp bq = Inr (PFloat (bq * (p / bp) powr e))"
  by (simp add: demand_quantity_def py_div_def py_pow_pos)

lemma demand_quantity_zero_base_price_raises:
  "demand_quantity p e 0 bq = Inl ZeroDivisionError"
  by (simp add: demand_quantity_def py_div_def)

text \<open>
  Claim C6. At the reference price the quantity demanded is the reference quantity, for
  every elasticity and positive reference price and quantity.
\<close>

theorem demand_at_base_price:
  "0 < bp \<Longrightarrow> 0 < bq \<Longrightarrow> demand_quantity bp e bp bq = Inr (PFloat bq)"
  by (simp add: demand_quantity_def py_div_def py_pow_def)

theorem demand_at_base_price_witness:
  "demand_quantity 100 (- 3 / 2) 100 1000 = Inr (PFloat 1000)"
  using demand_at_base_price [of 100 1000 "- 3 / 2"] by simp



lemma revenue_pos:
  "0 < p \<Longrightarrow> 0 < bp \<Longrightarrow> revenue p e bp bq = Inr (PFloat (p * (bq * (p / bp) powr e)))"
  by (simp add: revenue_def demand_quantity_pos)


section \<open>Optimal price\<close>

lemma optimal_price_numeric:
  "e < 0 \<Longrightarrow> e \<noteq> - 1 \<Longrightarrow> mc \<noteq> 0 \<Longrightarrow>
     optimal_price e mc
       = Inr [(''optimal_price'', Num (round_float (mc / (1 + 1 / e)) 2)),
              (''markup_percentage'',
                 Num (round_float ((mc / (1 + 1 / e) - mc) / mc * 100) 2))]"
  by (simp add: optimal_price_def py_div_def markup_divisor_zero)

lemma optimal_price_raises:
  "e < 0 \<Longrightarrow> e = - 1 \<or> mc = 0 \<Longrightarrow> optimal_price e mc = Inl ZeroDivisionError"
  by (auto simp: optimal_price_def py_div_def markup_divisor_zero)

text \<open>
  Claim C3, as stated, fails: the elasticities \<open>-1\<close> (with marginal cost 10) and \<open>-2\<close>
  (with marginal cost 0) are negative, and \<open>optimal_price\<close> raises there instead of
  returning a numeric result mapping.
\<close>

theorem optimal_price_result_counterexample:
  "(- 1 :: real) < 0 \<and> \<not> is_numeric_result (optimal_price (- 1) 10)
   \<and> (- 2 :: real) < 0 \<and> \<not> is_numeric_result (optimal_price (- 2) 0)"
  by (simp add: optimal_price_def py_div_def is_numeric_result_def)

text \<open>
  Claim C3, amended. \<open>optimal_price\<close> returns the error mapping if and only if the
  elasticity is at least 0; for every negative elasticity other than \<open>-1\<close> and every
  non-zero marginal cost it returns a numeric result mapping. So it returns the error
  mapping for elasticity 0 and 2, and a numeric one for \<open>-2\<close>.
\<close>

theorem optimal_price_result_kind:
  "(is_error_result (optimal_price e mc) \<longleftrightarrow> 0 \<le> e)
   \<and> (e < 0 \<longrightarrow> e \<noteq> - 1 \<longrightarrow> mc \<noteq> 0 \<longrightarrow> is_numeric_result (optimal_price e mc))"
proof (cases "0 \<le> e")
  case True
  then show ?thesis
    by (simp add: optimal_price_def is_error_result_def)
next
  case negative: False
  show ?thesis
  proof (cases "e = - 1 \<or> mc = 0")
    case True
    with negative have "optimal_price e mc = Inl ZeroDivisionError"
      by (simp add: optimal_price_raises)
    with negative True show ?thesis
      by (auto simp add: is_error_result_def)
  next
    case False
    with negative show ?thesis
      by (simp add: optimal_price_numeric is_error_result_def is_numeric_result_def)
  qed
qed

theorem optimal_price_result_kind_witness:
  "is_error_result (optimal_price 0 10) \<and> is_error_result (optimal_price 2 10)
   \<and> is_numeric_result (optimal_price (- 2) 10)"
  using optimal_price_result_kind [of 0 10] optimal_price_result_kind [of 2 10]
    optimal_price_result_kind [of "- 2" 10]
  by simp




text \<open>
  The markup is computed from the price before rounding: at elasticity \<open>-7\<close> and
  marginal cost 1 the price \<open>7/6\<close> is returned as 1.17 and the markup as 16.67, where
  the rounded price would give 17.
\<close>

lemma markup_from_unrounded_price:
  "optimal_price (- 7) 1
     = Inr [(''optimal_price'', Num (117 / 100)), (''markup_percentage'', Num (1667 / 100))]
   \<and> round_float (100 * (117 / 100 - 1) / 1) 2 = 17"
  by (simp add: optimal_price_def py_div_def round_float_def round_half_even_def)

text \<open>
  Claim C10. At elasticity \<open>-1\<close>, for every marginal cost: \<open>1 / elasticity\<close> is \<open>-1\<close>,
  the divisor \<open>1 + 1 / elasticity\<close> is zero and the division by it raises
  ZeroDivisionError, so \<open>optimal_price\<close> returns neither the error mapping nor a numeric
  mapping.
\<close>

theorem optimal_price_unit_elasticity:
  "py_div 1 (- 1) = Inr (- 1)
   \<and> py_div mc (1 + (- 1)) = Inl ZeroDivisionError
   \<and> optimal_price (- 1) mc = Inl ZeroDivisionError
   \<and> \<not> is_error_result (optimal_price (- 1) mc)
   \<and> \<not> is_numeric_result (optimal_price (- 1) mc)"
  by (simp add: optimal_price_def py_div_def is_error_result_def is_numeric_result_def)

section \<open>The production endpoint's result\<close>



end
